theory Spec2Isabelle
  imports Main
begin

section \<open>The timeout manager of the test worker\<close>

text \<open>
  A shallow embedding of \<^verbatim>\<open>packages/playwright/src/worker/timeoutManager.ts\<close>.

  Conventions of the embedding:
  \<^item> A TypeScript \<^verbatim>\<open>number\<close> holding a duration in milliseconds, a line or a column is an
    \<^typ>\<open>int\<close>: the values are whole numbers. The one arithmetic operation of the source,
    the multiplication by three in \<^verbatim>\<open>slow()\<close>, is a multiplication of IEEE doubles: its
    result is the product rounded to the nearest double (\<open>roundToDouble\<close>), which is
    the product itself up to \<open>2^53\<close> in magnitude.
  \<^item> A \<^verbatim>\<open>TimeSlot\<close> is a mutable object that descriptions and the manager share by
    reference. The embedding keeps the slot objects in a store (\<open>slots\<close>, from references
    to slot values); a description holds a reference, and every assignment to a field of
    a slot is an update of the store at that reference.
  \<^item> An optional field is an \<open>option\<close>. An object is truthy, so \<^verbatim>\<open>a || b\<close> on optional
    objects takes \<^verbatim>\<open>a\<close> when it is present and \<^verbatim>\<open>b\<close> otherwise.
  \<^item> The two imports of the file, \<^verbatim>\<open>colors\<close> and \<^verbatim>\<open>TimeoutRunner\<close>, are not part of it.
    Their operations are parameters of the embedding (the record \<open>externals\<close>), so
    every theorem holds for any implementation of them.
\<close>

subsection \<open>Data\<close>

record TimeSlot =
  timeout :: int
  elapsed :: int

type_synonym slotRef = nat

datatype RunnableType =
  Test | BeforeAll | AfterAll | BeforeEach | AfterEach | Slow | Skip | Fail | Fixme | Teardown

text \<open>The string that a \<^verbatim>\<open>RunnableType\<close> is in the source.\<close>

fun typeName :: "RunnableType \<Rightarrow> string" where
  "typeName Test = ''test''"
| "typeName BeforeAll = ''beforeAll''"
| "typeName AfterAll = ''afterAll''"
| "typeName BeforeEach = ''beforeEach''"
| "typeName AfterEach = ''afterEach''"
| "typeName Slow = ''slow''"
| "typeName Skip = ''skip''"
| "typeName Fail = ''fail''"
| "typeName Fixme = ''fixme''"
| "typeName Teardown = ''teardown''"

record Location =
  file_l :: string
  line :: int
  column :: int

datatype FixturePhase = PhaseSetup | PhaseTeardown

fun phaseName :: "FixturePhase \<Rightarrow> string" where
  "phaseName PhaseSetup = ''setup''"
| "phaseName PhaseTeardown = ''teardown''"

record FixtureDescription =
  title :: string
  phase :: FixturePhase
  fixture_location :: "Location option"
  fixture_slot :: "slotRef option"

record RunnableDescription =
  type :: RunnableType
  location :: "Location option"
  slot :: "slotRef option"
  fixture :: "FixtureDescription option"

text \<open>\<^verbatim>\<open>class TimeoutManagerError extends Error\<close>, with the three fields the source sets.\<close>

record TimeoutManagerError =
  name :: string
  message :: string
  stack :: string

text \<open>
  What an operation can throw: the signal of the \<^verbatim>\<open>TimeoutRunner\<close>, an error of the
  manager (a nested call made it), or anything else.
\<close>

datatype 'e thrown =
  TimeoutRunnerError
| ManagerError TimeoutManagerError
| OtherError 'e

text \<open>
  The state of an awaited promise when the wait ends: resolved, rejected, or still pending
  at the moment the \<^verbatim>\<open>TimeoutRunner\<close> ends the race (its deadline has passed, or it was
  interrupted).
\<close>

datatype ('e, 'a) outcome =
  Resolved 'a
| Rejected "'e thrown"
| Pending

subsection \<open>The imports\<close>

text \<open>
  \<^verbatim>\<open>colors.red\<close> of \<^verbatim>\<open>playwright-core/lib/utilsBundle\<close> and the methods of
  \<^verbatim>\<open>TimeoutRunner\<close> of \<^verbatim>\<open>playwright-core/lib/utils\<close> that the manager calls. \<open>'t\<close> is
  the state of a \<^verbatim>\<open>TimeoutRunner\<close>. The second argument of \<open>runner_updateTimeout\<close> is the
  optional \<^verbatim>\<open>elapsed\<close>.
\<close>

record 't externals =
  colors_red :: "string \<Rightarrow> string"
  runner_new :: "int \<Rightarrow> 't"
  runner_elapsed :: "'t \<Rightarrow> int"
  runner_deadline :: "'t \<Rightarrow> int"
  runner_updateTimeout :: "int \<Rightarrow> int option \<Rightarrow> 't \<Rightarrow> 't"
  runner_interrupt :: "'t \<Rightarrow> 't"

subsection \<open>The manager and the store of slots\<close>

record 't TimeoutManager =
  defaultSlot :: slotRef
  runnable :: RunnableDescription
  timeoutRunner :: 't

record 't world =
  slots :: "slotRef \<Rightarrow> TimeSlot"
  manager :: "'t TimeoutManager"

text \<open>An asynchronous callback: it may use the manager and the slots, and it has an outcome.\<close>

type_synonym ('t, 'e, 'a) operation = "'t world \<Rightarrow> ('e, 'a) outcome \<times> 't world"

text \<open>The literal \<^verbatim>\<open>{ type: 'test' }\<close>.\<close>

definition restingRunnable :: RunnableDescription where
  "restingRunnable = \<lparr>type = Test, location = None, slot = None, fixture = None\<rparr>"

text \<open>
  The constructor. \<open>r\<close> is the reference of the object that \<^verbatim>\<open>{ timeout, elapsed: 0 }\<close>
  allocates, \<open>h\<close> the store before.
\<close>

definition constructor :: "'t externals \<Rightarrow> int \<Rightarrow> slotRef \<Rightarrow> (slotRef \<Rightarrow> TimeSlot) \<Rightarrow> 't world" where
  "constructor X t r h =
     \<lparr>slots = h(r := \<lparr>timeout = t, elapsed = 0\<rparr>),
      manager = \<lparr>defaultSlot = r, runnable = restingRunnable, timeoutRunner = runner_new X t\<rparr>\<rparr>"

subsection \<open>Slot resolution\<close>

text \<open>\<^verbatim>\<open>this._runnable.fixture?.slot || this._runnable.slot || this._defaultSlot\<close>\<close>

definition currentSlot :: "'t TimeoutManager \<Rightarrow> slotRef" where
  "currentSlot m =
     (case (case fixture (runnable m) of None \<Rightarrow> None | Some f \<Rightarrow> fixture_slot f) of
        Some s \<Rightarrow> s
      | None \<Rightarrow> (case slot (runnable m) of Some s \<Rightarrow> s | None \<Rightarrow> defaultSlot m))"

subsection \<open>Arithmetic of numbers\<close>

text \<open>The number of binary digits of a natural number.\<close>

function bitLength :: "nat \<Rightarrow> nat" where
  "bitLength n = (if n = 0 then 0 else Suc (bitLength (n div 2)))"
  by pat_completeness auto
termination
proof (relation "measure id")
  show "wf (measure id)" by simp
next
  fix n :: nat
  assume "n \<noteq> 0"
  then show "(n div 2, n) \<in> measure id" by simp
qed

declare bitLength.simps [simp del]

text \<open>
  The result of an arithmetic operation on \<^verbatim>\<open>number\<close>s whose exact value is the whole
  number \<open>x\<close>: the double nearest to \<open>x\<close>. A double has 53 binary digits, so a whole
  number below \<open>2^53\<close> in magnitude is a double; a larger one is rounded to 53 digits,
  to the nearest, and to the even one of two that are equally near. (From \<open>2^1024\<close> on
  the result in the source is \<^verbatim>\<open>Infinity\<close>, which is no whole number; the embedding does not
  cover such magnitudes.)
\<close>

definition roundToDouble :: "int \<Rightarrow> int" where
  "roundToDouble x =
     (if \<bar>x\<bar> < 2 ^ 53 then x
      else let e = bitLength (nat \<bar>x\<bar>) - 53;
               q = \<bar>x\<bar> div 2 ^ e;
               r = \<bar>x\<bar> mod 2 ^ e;
               q' = (if 2 ^ e < 2 * r \<or> (2 * r = 2 ^ e \<and> odd q) then q + 1 else q)
           in sgn x * (q' * 2 ^ e))"

subsection \<open>Methods\<close>

definition interrupt :: "'t externals \<Rightarrow> 't world \<Rightarrow> 't world" where
  "interrupt X w =
     w\<lparr>manager := (manager w)\<lparr>timeoutRunner := runner_interrupt X (timeoutRunner (manager w))\<rparr>\<rparr>"

definition updateRunnable :: "'t externals \<Rightarrow> RunnableDescription \<Rightarrow> 't world \<Rightarrow> 't world" where
  "updateRunnable X r w =
     (let s = currentSlot (manager w);
          h = (slots w)(s := (slots w s)\<lparr>elapsed := runner_elapsed X (timeoutRunner (manager w))\<rparr>);
          m = (manager w)\<lparr>runnable := r\<rparr>;
          s' = currentSlot m
      in \<lparr>slots = h,
          manager = m\<lparr>timeoutRunner :=
            runner_updateTimeout X (timeout (h s')) (Some (elapsed (h s'))) (timeoutRunner m)\<rparr>\<rparr>)"

definition defaultSlotTimings :: "'t externals \<Rightarrow> 't world \<Rightarrow> slotRef \<times> 't world" where
  "defaultSlotTimings X w =
     (let s = currentSlot (manager w)
      in (defaultSlot (manager w),
          w\<lparr>slots := (slots w)(s := (slots w s)\<lparr>elapsed := runner_elapsed X (timeoutRunner (manager w))\<rparr>)\<rparr>))"

definition slow :: "'t externals \<Rightarrow> 't world \<Rightarrow> 't world" where
  "slow X w =
     (let s = currentSlot (manager w);
          h = (slots w)(s := (slots w s)\<lparr>timeout := roundToDouble (timeout (slots w s) * 3)\<rparr>)
      in \<lparr>slots = h,
          manager = (manager w)\<lparr>timeoutRunner :=
            runner_updateTimeout X (timeout (h s)) None (timeoutRunner (manager w))\<rparr>\<rparr>)"

definition setTimeout :: "'t externals \<Rightarrow> int \<Rightarrow> 't world \<Rightarrow> 't world" where
  "setTimeout X t w =
     (let s = currentSlot (manager w)
      in if timeout (slots w s) = 0 then w
         else \<lparr>slots = (slots w)(s := (slots w s)\<lparr>timeout := t\<rparr>),
               manager = (manager w)\<lparr>timeoutRunner :=
                 runner_updateTimeout X t None (timeoutRunner (manager w))\<rparr>\<rparr>)"

definition currentRunnableType :: "'t world \<Rightarrow> RunnableType" where
  "currentRunnableType w = type (runnable (manager w))"

definition currentSlotDeadline :: "'t externals \<Rightarrow> 't world \<Rightarrow> int" where
  "currentSlotDeadline X w = runner_deadline X (timeoutRunner (manager w))"

subsection \<open>Numbers in template literals\<close>

text \<open>
  \<^verbatim>\<open>${n}\<close> for a whole number \<open>n\<close>: its decimal digits, after a minus sign when it is
  negative (JavaScript prints whole numbers this way below \<open>10^21\<close>).
\<close>

definition digitChar :: "nat \<Rightarrow> char" where
  "digitChar d = ''0123456789'' ! (d mod 10)"

function showNat :: "nat \<Rightarrow> string" where
  "showNat n = (if n < 10 then [digitChar n] else showNat (n div 10) @ [digitChar (n mod 10)])"
  by pat_completeness auto
termination
proof (relation "measure id")
  show "wf (measure id)" by simp
next
  fix n :: nat
  assume "\<not> n < 10"
  then show "(n div 10, n) \<in> measure id" by simp
qed

declare showNat.simps [simp del]

definition numberToString :: "int \<Rightarrow> string" where
  "numberToString i = (if i < 0 then ''-'' @ showNat (nat (- i)) else showNat (nat i))"

subsection \<open>The timeout error\<close>

text \<open>
  The \<^verbatim>\<open>switch\<close> of \<^verbatim>\<open>_createTimeoutError\<close>: the message by the type of the runnable. \<open>t\<close> is
  the printed timeout.
\<close>

definition switchMessage :: "string \<Rightarrow> RunnableDescription \<Rightarrow> string" where
  "switchMessage t r =
     (case type r of
        Test \<Rightarrow>
          (case fixture r of
             Some f \<Rightarrow>
               if phase f = PhaseSetup
               then ''Test timeout of '' @ t @ ''ms exceeded while setting up \"'' @ title f @ ''\".''
               else ''Test finished within timeout of '' @ t @ ''ms, but tearing down \"'' @ title f
                      @ ''\" ran out of time.''
                    @ ''\<newline>''
                    @ ''Please allow more time for the test, since teardown is attributed towards the test timeout budget.''
           | None \<Rightarrow> ''Test timeout of '' @ t @ ''ms exceeded.'')
      | AfterEach \<Rightarrow>
          ''Test timeout of '' @ t @ ''ms exceeded while running \"'' @ typeName (type r) @ ''\" hook.''
      | BeforeEach \<Rightarrow>
          ''Test timeout of '' @ t @ ''ms exceeded while running \"'' @ typeName (type r) @ ''\" hook.''
      | BeforeAll \<Rightarrow> ''\"'' @ typeName (type r) @ ''\" hook timeout of '' @ t @ ''ms exceeded.''
      | AfterAll \<Rightarrow> ''\"'' @ typeName (type r) @ ''\" hook timeout of '' @ t @ ''ms exceeded.''
      | Teardown \<Rightarrow>
          (case fixture r of
             Some f \<Rightarrow>
               ''Worker teardown timeout of '' @ t @ ''ms exceeded while ''
                 @ (if phase f = PhaseSetup then ''setting up'' else ''tearing down'')
                 @ '' \"'' @ title f @ ''\".''
           | None \<Rightarrow> ''Worker teardown timeout of '' @ t @ ''ms exceeded.'')
      | Skip \<Rightarrow> ''\"'' @ typeName (type r) @ ''\" modifier timeout of '' @ t @ ''ms exceeded.''
      | Slow \<Rightarrow> ''\"'' @ typeName (type r) @ ''\" modifier timeout of '' @ t @ ''ms exceeded.''
      | Fixme \<Rightarrow> ''\"'' @ typeName (type r) @ ''\" modifier timeout of '' @ t @ ''ms exceeded.''
      | Fail \<Rightarrow> ''\"'' @ typeName (type r) @ ''\" modifier timeout of '' @ t @ ''ms exceeded.'')"

text \<open>\<^verbatim>\<open>this._runnable.fixture?.slot ? this._runnable.fixture : undefined\<close>\<close>

definition fixtureWithSlot :: "RunnableDescription \<Rightarrow> FixtureDescription option" where
  "fixtureWithSlot r =
     (case fixture r of
        None \<Rightarrow> None
      | Some f \<Rightarrow> (case fixture_slot f of None \<Rightarrow> None | Some s \<Rightarrow> Some f))"

text \<open>\<^verbatim>\<open>(fixtureWithSlot || this._runnable).location\<close>\<close>

definition errorLocation :: "RunnableDescription \<Rightarrow> Location option" where
  "errorLocation r =
     (case fixtureWithSlot r of Some f \<Rightarrow> fixture_location f | None \<Rightarrow> location r)"

text \<open>The line that the location adds to the stack; nothing when there is no location.\<close>

definition locationLine :: "Location option \<Rightarrow> string" where
  "locationLine l =
     (case l of
        Some loc \<Rightarrow>
          ''\<newline>    at '' @ file_l loc @ '':'' @ numberToString (line loc) @ '':''
            @ numberToString (column loc)
      | None \<Rightarrow> '''')"

definition createTimeoutError :: "'t externals \<Rightarrow> 't world \<Rightarrow> TimeoutManagerError" where
  "createTimeoutError X w =
     (let r = runnable (manager w);
          t = numberToString (timeout (slots w (currentSlot (manager w))));
          msg = switchMessage t r;
          msg' = (case fixtureWithSlot r of
                    Some f \<Rightarrow>
                      ''Fixture \"'' @ title f @ ''\" timeout of '' @ t @ ''ms exceeded during ''
                        @ phaseName (phase f) @ ''.''
                  | None \<Rightarrow> msg);
          msg'' = colors_red X msg'
      in \<lparr>name = '''', message = msg'', stack = msg'' @ locationLine (errorLocation r)\<rparr>)"

subsection \<open>Running an operation under a runnable\<close>

text \<open>
  Modelled from the spec: \<^verbatim>\<open>TimeoutRunner.run\<close> is not in this file. The timer runs the
  operation and returns its result; it raises its own signal, \<^verbatim>\<open>TimeoutRunnerError\<close>, if
  the deadline passes while the operation is still pending. A failure of the operation is
  the failure of the race.
\<close>

definition TimeoutRunner_run ::
  "('t, 'e, 'a) operation \<Rightarrow> 't world \<Rightarrow> ('e thrown + 'a) \<times> 't world" where
  "TimeoutRunner_run cb w =
     (case cb w of
        (Resolved v, w') \<Rightarrow> (Inr v, w')
      | (Rejected e, w') \<Rightarrow> (Inl e, w')
      | (Pending, w') \<Rightarrow> (Inl TimeoutRunnerError, w'))"

text \<open>
  \<^verbatim>\<open>withRunnable\<close>. The \<^verbatim>\<open>catch\<close> block runs before the \<^verbatim>\<open>finally\<close> block, so the error
  is made in the world the race left, and the runnable is reset after it.
\<close>

definition withRunnable ::
  "'t externals \<Rightarrow> RunnableDescription option \<Rightarrow> ('t, 'e, 'a) operation
     \<Rightarrow> 't world \<Rightarrow> ('e, 'a) outcome \<times> 't world" where
  "withRunnable X r cb w =
     (case r of
        None \<Rightarrow> cb w
      | Some d \<Rightarrow>
          (case TimeoutRunner_run cb (updateRunnable X d w) of
             (Inr v, w') \<Rightarrow> (Resolved v, updateRunnable X restingRunnable w')
           | (Inl e, w') \<Rightarrow>
               if e \<noteq> TimeoutRunnerError
               then (Rejected e, updateRunnable X restingRunnable w')
               else (Rejected (ManagerError (createTimeoutError X w')),
                     updateRunnable X restingRunnable w')))"

text \<open>
  A sequence of calls of \<^verbatim>\<open>withRunnable\<close>, each started after the one before has returned.
\<close>

fun withRunnables ::
  "'t externals \<Rightarrow> (RunnableDescription option \<times> ('t, 'e, 'a) operation) list
     \<Rightarrow> 't world \<Rightarrow> 't world" where
  "withRunnables X [] w = w"
| "withRunnables X (c # cs) w = withRunnables X cs (snd (withRunnable X (fst c) (snd c) w))"

text \<open>\<open>n\<close> calls of \<^verbatim>\<open>slow()\<close> in a row.\<close>

fun slowTimes :: "'t externals \<Rightarrow> nat \<Rightarrow> 't world \<Rightarrow> 't world" where
  "slowTimes X 0 w = w"
| "slowTimes X (Suc n) w = slowTimes X n (slow X w)"

subsection \<open>A concrete timer and concrete inputs\<close>

text \<open>
  Modelled from the spec: the \<^verbatim>\<open>TimeoutRunner\<close> class of \<^verbatim>\<open>playwright-core/lib/utils\<close> is
  not in this file. This timer follows the spec's contract of the Timer: it is made with
  the initial timeout; \<^verbatim>\<open>updateTimeout(timeout, elapsedSoFar?)\<close> pushes a new deadline
  computed from \<open>timeout\<close> minus \<open>elapsedSoFar\<close> (default zero), and a timeout of zero
  disables enforcement (deadline \<open>0\<close>); \<^verbatim>\<open>elapsed()\<close> and \<^verbatim>\<open>deadline()\<close> are reads;
  \<^verbatim>\<open>interrupt()\<close> aborts the race. The styling of \<^verbatim>\<open>colors.red\<close> is switched off. It is
  used to run the embedding on concrete inputs only.
\<close>

record Timer =
  budget :: int
  spent :: int
  deadline :: int
  interrupted :: bool

definition specTimer :: "Timer externals" where
  "specTimer =
     \<lparr>colors_red = (\<lambda>s. s),
      runner_new = (\<lambda>t. \<lparr>budget = t, spent = 0, deadline = t, interrupted = False\<rparr>),
      runner_elapsed = spent,
      runner_deadline = deadline,
      runner_updateTimeout = (\<lambda>t e r.
        r\<lparr>budget := t,
          spent := (case e of None \<Rightarrow> spent r | Some x \<Rightarrow> x),
          deadline := (if t = 0 then 0 else t - (case e of None \<Rightarrow> 0 | Some x \<Rightarrow> x))\<rparr>),
      runner_interrupt = (\<lambda>r. r\<lparr>interrupted := True\<rparr>)\<rparr>"

text \<open>An operation during which \<open>n\<close> milliseconds pass on the timer and that ends as \<open>res\<close>.\<close>

definition exampleOp :: "int \<Rightarrow> (string, nat) outcome \<Rightarrow> (Timer, string, nat) operation" where
  "exampleOp n res w =
     (res, w\<lparr>manager := (manager w)\<lparr>timeoutRunner :=
        (timeoutRunner (manager w))\<lparr>spent := spent (timeoutRunner (manager w)) + n\<rparr>\<rparr>\<rparr>)"

text \<open>An operation that returns at once and does not touch the manager.\<close>

definition exampleReturn :: "(Timer, string, nat) operation" where
  "exampleReturn w = (Resolved 5, w)"

definition exampleSlots :: "slotRef \<Rightarrow> TimeSlot" where
  "exampleSlots =
     (\<lambda>r. \<lparr>timeout = 0, elapsed = 0\<rparr>)
       (1 := \<lparr>timeout = 5000, elapsed = 100\<rparr>, 2 := \<lparr>timeout = 2000, elapsed = 0\<rparr>)"

text \<open>A manager with a default timeout of 30 seconds, and one with enforcement disabled.\<close>

definition exampleWorld :: "Timer world" where
  "exampleWorld = constructor specTimer 30000 0 exampleSlots"

definition disabledWorld :: "Timer world" where
  "disabledWorld = constructor specTimer 0 0 exampleSlots"

text \<open>A manager whose default timeout is \<open>(2^53 + 1) / 3\<close> milliseconds.\<close>

definition largeWorld :: "Timer world" where
  "largeWorld = constructor specTimer 3002399751580331 0 exampleSlots"

definition exampleFixture :: FixtureDescription where
  "exampleFixture =
     \<lparr>title = ''db'', phase = PhaseTeardown,
      fixture_location = Some \<lparr>file_l = ''fixtures.ts'', line = 12, column = 3\<rparr>,
      fixture_slot = Some 2\<rparr>"

definition exampleHook :: RunnableDescription where
  "exampleHook =
     \<lparr>type = BeforeAll, location = Some \<lparr>file_l = ''a.spec.ts'', line = 7, column = 5\<rparr>,
      slot = Some 1, fixture = None\<rparr>"

definition exampleTest :: RunnableDescription where
  "exampleTest =
     \<lparr>type = Test, location = Some \<lparr>file_l = ''a.spec.ts'', line = 20, column = 1\<rparr>,
      slot = None, fixture = Some exampleFixture\<rparr>"

text \<open>A fixture \<^verbatim>\<open>page\<close> in a phase, with or without a slot, and a runnable of a type.\<close>

definition pageFixture :: "FixturePhase \<Rightarrow> slotRef option \<Rightarrow> FixtureDescription" where
  "pageFixture ph sl = \<lparr>title = ''page'', phase = ph, fixture_location = None, fixture_slot = sl\<rparr>"

definition runnableOf :: "RunnableType \<Rightarrow> FixtureDescription option \<Rightarrow> RunnableDescription" where
  "runnableOf ty fx = \<lparr>type = ty, location = None, slot = None, fixture = fx\<rparr>"

definition exampleCalls ::
  "(RunnableDescription option \<times> (Timer, string, nat) operation) list" where
  "exampleCalls =
     [(Some exampleHook, exampleOp 10 (Resolved 1)),
      (None, exampleOp 5 (Rejected (OtherError ''boom''))),
      (Some exampleTest, exampleOp 9999 Pending)]"

section \<open>Properties\<close>

lemmas example_defs =
  exampleWorld_def disabledWorld_def largeWorld_def constructor_def specTimer_def exampleSlots_def
  exampleFixture_def exampleHook_def exampleTest_def exampleOp_def restingRunnable_def

lemmas print_defs = numberToString_def showNat.simps digitChar_def

subsection \<open>Slot resolution\<close>

lemma currentSlot_cong:
  "runnable m' = runnable m \<Longrightarrow> defaultSlot m' = defaultSlot m \<Longrightarrow> currentSlot m' = currentSlot m"
  by (simp add: currentSlot_def split: option.splits)

lemma currentSlot_updateRunnable:
  "currentSlot (manager (updateRunnable X r w)) = currentSlot ((manager w)\<lparr>runnable := r\<rparr>)"
  by (rule currentSlot_cong) (simp_all add: updateRunnable_def Let_def)

lemma currentSlot_slow: "currentSlot (manager (slow X w)) = currentSlot (manager w)"
  by (rule currentSlot_cong) (simp_all add: slow_def Let_def)

lemma currentSlot_setTimeout: "currentSlot (manager (setTimeout X t w)) = currentSlot (manager w)"
  by (rule currentSlot_cong) (simp_all add: setTimeout_def Let_def)

lemma currentSlot_slowTimes: "currentSlot (manager (slowTimes X n w)) = currentSlot (manager w)"
  by (induction n arbitrary: w) (simp_all add: currentSlot_slow)

lemma example_resolution:
  "currentSlot (manager exampleWorld) = 0"
  "timeout (slots exampleWorld 0) = 30000"
  "timeoutRunner (manager exampleWorld) =
     \<lparr>budget = 30000, spent = 0, deadline = 30000, interrupted = False\<rparr>"
  "currentSlot (manager disabledWorld) = 0"
  "timeout (slots disabledWorld 0) = 0"
  by (simp_all add: example_defs currentSlot_def)

text \<open>
  Claim C1. The slot of the current runnable is the slot of its fixture when it has a
  fixture that has a slot; otherwise its own slot when it has one; otherwise the default
  slot of the manager. \<open>currentSlot\<close> is a total function of the manager alone, with a
  slot reference as its value: it always gives a slot, and it changes nothing.
\<close>

theorem currentSlot_resolution:
  "(\<forall>f s. fixture (runnable m) = Some f \<and> fixture_slot f = Some s \<longrightarrow> currentSlot m = s) \<and>
   ((\<forall>f. fixture (runnable m) = Some f \<longrightarrow> fixture_slot f = None) \<longrightarrow>
      (\<forall>s. slot (runnable m) = Some s \<longrightarrow> currentSlot m = s) \<and>
      (slot (runnable m) = None \<longrightarrow> currentSlot m = defaultSlot m))"
  by (auto simp: currentSlot_def split: option.splits)

theorem currentSlot_resolution_witness:
  "currentSlot ((manager exampleWorld)\<lparr>runnable := exampleTest\<rparr>) = 2
   \<and> currentSlot ((manager exampleWorld)\<lparr>runnable := exampleHook\<rparr>) = 1
   \<and> currentSlot (manager exampleWorld) = 0"
  using currentSlot_resolution [of "(manager exampleWorld)\<lparr>runnable := exampleTest\<rparr>"]
    currentSlot_resolution [of "(manager exampleWorld)\<lparr>runnable := exampleHook\<rparr>"]
    currentSlot_resolution [of "manager exampleWorld"]
  by (simp add: example_defs)

subsection \<open>Switching the runnable\<close>

lemma snd_TimeoutRunner_run: "snd (TimeoutRunner_run cb w) = snd (cb w)"
  by (cases "cb w" rule: prod.exhaust; cases "fst (cb w)")
     (simp_all add: TimeoutRunner_run_def)

lemma fst_TimeoutRunner_run:
  "fst (TimeoutRunner_run cb w) =
     (case fst (cb w) of
        Resolved v \<Rightarrow> Inr v
      | Rejected e \<Rightarrow> Inl e
      | Pending \<Rightarrow> Inl TimeoutRunnerError)"
proof -
  obtain res w' where c: "cb w = (res, w')"
    by (cases "cb w")
  show ?thesis
    by (cases res) (simp_all add: TimeoutRunner_run_def c)
qed

lemma snd_withRunnable_Some:
  "snd (withRunnable X (Some d) cb w) =
     updateRunnable X restingRunnable (snd (cb (updateRunnable X d w)))"
proof -
  obtain res w' where c: "cb (updateRunnable X d w) = (res, w')"
    by (cases "cb (updateRunnable X d w)")
  show ?thesis
    by (cases res) (simp_all add: withRunnable_def TimeoutRunner_run_def c)
qed

lemma fst_withRunnable_Some:
  "fst (withRunnable X (Some d) cb w) =
     (case fst (cb (updateRunnable X d w)) of
        Resolved v \<Rightarrow> Resolved v
      | Rejected e \<Rightarrow>
          if e \<noteq> TimeoutRunnerError then Rejected e
          else Rejected (ManagerError (createTimeoutError X (snd (cb (updateRunnable X d w)))))
      | Pending \<Rightarrow>
          Rejected (ManagerError (createTimeoutError X (snd (cb (updateRunnable X d w))))))"
proof -
  obtain res w' where c: "cb (updateRunnable X d w) = (res, w')"
    by (cases "cb (updateRunnable X d w)")
  show ?thesis
    by (cases res) (simp_all add: withRunnable_def TimeoutRunner_run_def c)
qed

lemma runnable_updateRunnable: "runnable (manager (updateRunnable X r w)) = r"
  by (simp add: updateRunnable_def Let_def)

lemma defaultSlot_updateRunnable:
  "defaultSlot (manager (updateRunnable X r w)) = defaultSlot (manager w)"
  by (simp add: updateRunnable_def Let_def)

lemma slots_updateRunnable:
  "slots (updateRunnable X r w) =
     (slots w)(currentSlot (manager w) :=
        (slots w (currentSlot (manager w)))\<lparr>elapsed := runner_elapsed X (timeoutRunner (manager w))\<rparr>)"
  by (simp add: updateRunnable_def Let_def)

lemma timeoutRunner_updateRunnable:
  "timeoutRunner (manager (updateRunnable X r w)) =
     runner_updateTimeout X
       (timeout (slots (updateRunnable X r w) (currentSlot (manager (updateRunnable X r w)))))
       (Some (elapsed (slots (updateRunnable X r w) (currentSlot (manager (updateRunnable X r w))))))
       (timeoutRunner (manager w))"
  by (simp only: currentSlot_updateRunnable slots_updateRunnable)
     (simp add: updateRunnable_def Let_def)

text \<open>
  Claim C2. A switch of the runnable to \<open>r\<close> (\<open>updateRunnable\<close>) writes the elapsed reading
  of the timer into the slot that was resolved before the switch (\<open>out\<close>) and changes no
  other slot and no timeout; it makes \<open>r\<close> the runnable; and it pushes into the timer the
  timeout and the elapsed time that the slot resolved after the switch (\<open>inc\<close>) holds in
  the store as the first step left it. So when the two slots are the same object the
  pushed elapsed time is the reading just written, and otherwise it is what the incoming
  slot had kept. With a timer whose reading is the elapsed time last pushed, the reading
  after the switch is the elapsed time of the incoming slot: the time before the switch
  is kept in the outgoing slot, and the timer goes on from where the incoming slot had
  stopped. \<open>withRunnable\<close> with a description makes exactly two such switches: to
  the description before the operation, and to \<^verbatim>\<open>{ type: 'test' }\<close> in the world that the
  operation left.
\<close>

theorem updateRunnable_switch:
  "(let out = currentSlot (manager w);
        reading = runner_elapsed X (timeoutRunner (manager w));
        w' = updateRunnable X r w;
        inc = currentSlot (manager w')
    in slots w' = (slots w)(out := (slots w out)\<lparr>elapsed := reading\<rparr>)
       \<and> elapsed (slots w' out) = reading
       \<and> runnable (manager w') = r
       \<and> defaultSlot (manager w') = defaultSlot (manager w)
       \<and> inc = currentSlot ((manager w)\<lparr>runnable := r\<rparr>)
       \<and> timeoutRunner (manager w') =
           runner_updateTimeout X (timeout (slots w' inc)) (Some (elapsed (slots w' inc)))
             (timeoutRunner (manager w))
       \<and> (inc = out \<longrightarrow> elapsed (slots w' inc) = reading)
       \<and> (inc \<noteq> out \<longrightarrow> slots w' inc = slots w inc)
       \<and> ((\<forall>t e tr. runner_elapsed X (runner_updateTimeout X t (Some e) tr) = e) \<longrightarrow>
            runner_elapsed X (timeoutRunner (manager w')) = elapsed (slots w' inc)))
   \<and> snd (withRunnable X (Some r) cb w) =
       updateRunnable X restingRunnable (snd (cb (updateRunnable X r w)))"
  unfolding Let_def
  using timeoutRunner_updateRunnable [of X r w]
  by (simp add: snd_withRunnable_Some runnable_updateRunnable defaultSlot_updateRunnable
      slots_updateRunnable currentSlot_updateRunnable)

text \<open>
  After 250 ms in the resting state, a switch to a hook with its own slot (reference 1)
  stamps 250 into the default slot (reference 0) and pushes the pair of the hook's slot; a
  switch that stays on the default slot pushes the 250 just stamped. A whole call under
  the hook, with an operation of 40 ms, leaves 250 in the default slot and in the timer,
  and 140 in the slot of the hook, which had 100.
\<close>

theorem updateRunnable_switch_witness:
  "slots (updateRunnable specTimer exampleHook (snd (exampleOp 250 (Resolved 0) exampleWorld))) 0
     = \<lparr>timeout = 30000, elapsed = 250\<rparr>
   \<and> slots (updateRunnable specTimer exampleHook (snd (exampleOp 250 (Resolved 0) exampleWorld))) 1
     = \<lparr>timeout = 5000, elapsed = 100\<rparr>
   \<and> timeoutRunner (manager
        (updateRunnable specTimer exampleHook (snd (exampleOp 250 (Resolved 0) exampleWorld))))
     = \<lparr>budget = 5000, spent = 100, deadline = 4900, interrupted = False\<rparr>
   \<and> runner_elapsed specTimer (timeoutRunner (manager
        (updateRunnable specTimer exampleHook (snd (exampleOp 250 (Resolved 0) exampleWorld)))))
     = 100
   \<and> timeoutRunner (manager
        (updateRunnable specTimer restingRunnable (snd (exampleOp 250 (Resolved 0) exampleWorld))))
     = \<lparr>budget = 30000, spent = 250, deadline = 29750, interrupted = False\<rparr>
   \<and> slots (snd (withRunnable specTimer (Some exampleHook) (exampleOp 40 (Resolved 1))
        (snd (exampleOp 250 (Resolved 0) exampleWorld)))) 0 = \<lparr>timeout = 30000, elapsed = 250\<rparr>
   \<and> slots (snd (withRunnable specTimer (Some exampleHook) (exampleOp 40 (Resolved 1))
        (snd (exampleOp 250 (Resolved 0) exampleWorld)))) 1 = \<lparr>timeout = 5000, elapsed = 140\<rparr>
   \<and> timeoutRunner (manager (snd (withRunnable specTimer (Some exampleHook)
        (exampleOp 40 (Resolved 1)) (snd (exampleOp 250 (Resolved 0) exampleWorld)))))
     = \<lparr>budget = 30000, spent = 250, deadline = 29750, interrupted = False\<rparr>"
proof -
  let ?w = "snd (exampleOp 250 (Resolved 0) exampleWorld)"
  have contract:
    "\<forall>t e tr. runner_elapsed specTimer (runner_updateTimeout specTimer t (Some e) tr) = e"
    by (simp add: specTimer_def)
  have after: "updateRunnable specTimer restingRunnable
      (snd (exampleOp 40 (Resolved 1) (updateRunnable specTimer exampleHook ?w))) =
      \<lparr>slots = exampleSlots(0 := \<lparr>timeout = 30000, elapsed = 250\<rparr>,
                1 := \<lparr>timeout = 5000, elapsed = 140\<rparr>),
       manager = \<lparr>defaultSlot = 0, runnable = restingRunnable,
         timeoutRunner = \<lparr>budget = 30000, spent = 250, deadline = 29750, interrupted = False\<rparr>\<rparr>\<rparr>"
    by (simp add: updateRunnable_def Let_def example_defs currentSlot_def)
  from contract after
    updateRunnable_switch [of ?w specTimer exampleHook "exampleOp 40 (Resolved 1)"]
    updateRunnable_switch [of ?w specTimer restingRunnable "exampleOp 40 (Resolved 1)"]
  show ?thesis
    by (simp add: Let_def) (simp add: example_defs currentSlot_def)
qed

subsection \<open>The outcome of a guarded call\<close>

lemma name_createTimeoutError: "name (createTimeoutError X w) = ''''"
  by (simp add: createTimeoutError_def Let_def)

lemma stack_createTimeoutError:
  "stack (createTimeoutError X w) =
     message (createTimeoutError X w) @ locationLine (errorLocation (runnable (manager w)))"
  by (simp add: createTimeoutError_def Let_def)

lemma message_createTimeoutError:
  "message (createTimeoutError X w) =
     colors_red X
       (case fixtureWithSlot (runnable (manager w)) of
          Some f \<Rightarrow>
            ''Fixture \"'' @ title f @ ''\" timeout of ''
              @ numberToString (timeout (slots w (currentSlot (manager w))))
              @ ''ms exceeded during '' @ phaseName (phase f) @ ''.''
        | None \<Rightarrow>
            switchMessage (numberToString (timeout (slots w (currentSlot (manager w)))))
              (runnable (manager w)))"
  by (simp add: createTimeoutError_def Let_def)

text \<open>
  Claim C3. For a call of \<open>withRunnable\<close> with a description \<open>d\<close>: when the race of the
  timer returns \<open>v\<close>, the call resolves with \<open>v\<close>; when the race fails with
  \<^verbatim>\<open>TimeoutRunnerError\<close>, the call fails with the error that \<open>createTimeoutError\<close> makes
  in the world the race left (before the runnable is reset); and when the race fails with
  anything else, the call fails with that same value. So an operation that resolves
  with \<open>v\<close> makes the call resolve with \<open>v\<close>, and an operation that fails with a value
  other than a \<^verbatim>\<open>TimeoutRunnerError\<close> makes the call fail with that value. The call fails
  with an error of the manager only when the race failed with the signal, or when the
  operation itself failed with that error (a call nested in it made it).

  The error that replaces the signal is the one of the phase \<open>d\<close>, when the operation has
  left \<open>d\<close> the current runnable: its name is empty; its stack is its message and the line
  of the location; the timeout \<open>t\<close> that the message prints is the timeout of the slot
  resolved for \<open>d\<close> (of the fixture's slot, else of the slot of \<open>d\<close>, else of the default
  slot); and its message, as \<^verbatim>\<open>colors.red\<close> styles it, is the text of the type of \<open>d\<close>: one
  text for each of \<^verbatim>\<open>test\<close> (without a fixture, with a fixture in setup, with a fixture
  in teardown), \<^verbatim>\<open>beforeEach\<close>, \<^verbatim>\<open>afterEach\<close>, \<^verbatim>\<open>beforeAll\<close>, \<^verbatim>\<open>afterAll\<close>, \<^verbatim>\<open>teardown\<close>
  (without a fixture, with a fixture in setup, with a fixture in teardown) and the four
  modifiers, and the text of the fixture when the fixture has its own slot.
\<close>

theorem withRunnable_outcome:
  "(fst (TimeoutRunner_run cb (updateRunnable X d w)) = Inr v \<longrightarrow>
      fst (withRunnable X (Some d) cb w) = Resolved v)
   \<and> (fst (TimeoutRunner_run cb (updateRunnable X d w)) = Inl TimeoutRunnerError \<longrightarrow>
      fst (withRunnable X (Some d) cb w) =
        Rejected (ManagerError
          (createTimeoutError X (snd (TimeoutRunner_run cb (updateRunnable X d w))))))
   \<and> (fst (TimeoutRunner_run cb (updateRunnable X d w)) = Inl e \<and> e \<noteq> TimeoutRunnerError \<longrightarrow>
      fst (withRunnable X (Some d) cb w) = Rejected e)
   \<and> (fst (cb (updateRunnable X d w)) = Resolved v \<longrightarrow>
      fst (withRunnable X (Some d) cb w) = Resolved v)
   \<and> (fst (cb (updateRunnable X d w)) = Rejected e \<and> e \<noteq> TimeoutRunnerError \<longrightarrow>
      fst (withRunnable X (Some d) cb w) = Rejected e)
   \<and> (fst (withRunnable X (Some d) cb w) = Rejected (ManagerError err) \<longrightarrow>
      fst (cb (updateRunnable X d w)) = Rejected (ManagerError err)
      \<or> fst (TimeoutRunner_run cb (updateRunnable X d w)) = Inl TimeoutRunnerError
        \<and> err = createTimeoutError X (snd (TimeoutRunner_run cb (updateRunnable X d w))))
   \<and> (fst (TimeoutRunner_run cb (updateRunnable X d w)) = Inl TimeoutRunnerError
      \<and> runnable (manager (snd (TimeoutRunner_run cb (updateRunnable X d w)))) = d \<longrightarrow>
      (let w' = snd (TimeoutRunner_run cb (updateRunnable X d w));
           t = numberToString (timeout (slots w' (currentSlot (manager w'))));
           err = createTimeoutError X w';
           plain = (\<forall>g. fixture d = Some g \<longrightarrow> fixture_slot g = None)
       in fst (withRunnable X (Some d) cb w) = Rejected (ManagerError err)
          \<and> name err = ''''
          \<and> stack err = message err @ locationLine (errorLocation d)
          \<and> (plain \<longrightarrow> errorLocation d = location d)
          \<and> (\<forall>f s. fixture d = Some f \<and> fixture_slot f = Some s \<longrightarrow>
               errorLocation d = fixture_location f)
          \<and> (errorLocation d = None \<longrightarrow> stack err = message err)
          \<and> (\<forall>l. errorLocation d = Some l \<longrightarrow>
               stack err = message err @ ''\<newline>    at '' @ file_l l @ '':''
                 @ numberToString (line l) @ '':'' @ numberToString (column l))
          \<and> (\<forall>s. plain \<and> slot d = Some s \<longrightarrow> t = numberToString (timeout (slots w' s)))
          \<and> (plain \<and> slot d = None \<longrightarrow>
               t = numberToString (timeout (slots w' (defaultSlot (manager w')))))
          \<and> (type d = Test \<and> fixture d = None \<longrightarrow>
             message err = colors_red X
               (''Test timeout of '' @ t @ ''ms exceeded.''))
          \<and> (\<forall>f. type d = Test \<and> fixture d = Some f \<and> fixture_slot f = None \<and> phase f = PhaseSetup \<longrightarrow>
             message err = colors_red X
               (''Test timeout of '' @ t @ ''ms exceeded while setting up \"'' @ title f @ ''\".''))
          \<and> (\<forall>f. type d = Test \<and> fixture d = Some f \<and> fixture_slot f = None \<and> phase f = PhaseTeardown \<longrightarrow>
             message err = colors_red X
               (''Test finished within timeout of '' @ t @ ''ms, but tearing down \"'' @ title f
                  @ ''\" ran out of time.\<newline>Please allow more time for the test, since teardown is attributed towards the test timeout budget.''))
          \<and> (type d = BeforeEach \<and> plain \<longrightarrow>
             message err = colors_red X
               (''Test timeout of '' @ t @ ''ms exceeded while running \"beforeEach\" hook.''))
          \<and> (type d = AfterEach \<and> plain \<longrightarrow>
             message err = colors_red X
               (''Test timeout of '' @ t @ ''ms exceeded while running \"afterEach\" hook.''))
          \<and> (type d = BeforeAll \<and> plain \<longrightarrow>
             message err = colors_red X
               (''\"beforeAll\" hook timeout of '' @ t @ ''ms exceeded.''))
          \<and> (type d = AfterAll \<and> plain \<longrightarrow>
             message err = colors_red X
               (''\"afterAll\" hook timeout of '' @ t @ ''ms exceeded.''))
          \<and> (type d = Teardown \<and> fixture d = None \<longrightarrow>
             message err = colors_red X
               (''Worker teardown timeout of '' @ t @ ''ms exceeded.''))
          \<and> (\<forall>f. type d = Teardown \<and> fixture d = Some f \<and> fixture_slot f = None \<and> phase f = PhaseSetup \<longrightarrow>
             message err = colors_red X
               (''Worker teardown timeout of '' @ t @ ''ms exceeded while setting up \"'' @ title f @ ''\".''))
          \<and> (\<forall>f. type d = Teardown \<and> fixture d = Some f \<and> fixture_slot f = None \<and> phase f = PhaseTeardown \<longrightarrow>
             message err = colors_red X
               (''Worker teardown timeout of '' @ t @ ''ms exceeded while tearing down \"'' @ title f @ ''\".''))
          \<and> (type d = Skip \<and> plain \<longrightarrow>
             message err = colors_red X
               (''\"skip\" modifier timeout of '' @ t @ ''ms exceeded.''))
          \<and> (type d = Slow \<and> plain \<longrightarrow>
             message err = colors_red X
               (''\"slow\" modifier timeout of '' @ t @ ''ms exceeded.''))
          \<and> (type d = Fixme \<and> plain \<longrightarrow>
             message err = colors_red X
               (''\"fixme\" modifier timeout of '' @ t @ ''ms exceeded.''))
          \<and> (type d = Fail \<and> plain \<longrightarrow>
             message err = colors_red X
               (''\"fail\" modifier timeout of '' @ t @ ''ms exceeded.''))
          \<and> (\<forall>f s. fixture d = Some f \<and> fixture_slot f = Some s \<and> phase f = PhaseSetup \<longrightarrow>
             t = numberToString (timeout (slots w' s))
             \<and> message err = colors_red X
               (''Fixture \"'' @ title f @ ''\" timeout of '' @ t @ ''ms exceeded during setup.''))
          \<and> (\<forall>f s. fixture d = Some f \<and> fixture_slot f = Some s \<and> phase f = PhaseTeardown \<longrightarrow>
             t = numberToString (timeout (slots w' s))
             \<and> message err = colors_red X
               (''Fixture \"'' @ title f @ ''\" timeout of '' @ t @ ''ms exceeded during teardown.''))))"
proof -
  let ?w = "snd (TimeoutRunner_run cb (updateRunnable X d w))"
  have outcomes:
    "(fst (TimeoutRunner_run cb (updateRunnable X d w)) = Inr v \<longrightarrow>
        fst (withRunnable X (Some d) cb w) = Resolved v)
     \<and> (fst (TimeoutRunner_run cb (updateRunnable X d w)) = Inl TimeoutRunnerError \<longrightarrow>
        fst (withRunnable X (Some d) cb w) = Rejected (ManagerError (createTimeoutError X ?w)))
     \<and> (fst (TimeoutRunner_run cb (updateRunnable X d w)) = Inl e \<and> e \<noteq> TimeoutRunnerError \<longrightarrow>
        fst (withRunnable X (Some d) cb w) = Rejected e)
     \<and> (fst (cb (updateRunnable X d w)) = Resolved v \<longrightarrow>
        fst (withRunnable X (Some d) cb w) = Resolved v)
     \<and> (fst (cb (updateRunnable X d w)) = Rejected e \<and> e \<noteq> TimeoutRunnerError \<longrightarrow>
        fst (withRunnable X (Some d) cb w) = Rejected e)
     \<and> (fst (withRunnable X (Some d) cb w) = Rejected (ManagerError err) \<longrightarrow>
        fst (cb (updateRunnable X d w)) = Rejected (ManagerError err)
        \<or> fst (TimeoutRunner_run cb (updateRunnable X d w)) = Inl TimeoutRunnerError
          \<and> err = createTimeoutError X ?w)"
    by (simp add: fst_withRunnable_Some fst_TimeoutRunner_run snd_TimeoutRunner_run
        split: outcome.splits)
  have content: "?thesis" if sig: "fst (TimeoutRunner_run cb (updateRunnable X d w)) = Inl TimeoutRunnerError"
    and same: "runnable (manager ?w) = d"
  proof -
    have plainD: "fixtureWithSlot d = None" if "\<forall>g. fixture d = Some g \<longrightarrow> fixture_slot g = None"
      using that by (simp add: fixtureWithSlot_def split: option.splits)
    have ownD: "fixtureWithSlot d = Some f \<and> currentSlot (manager ?w) = s"
      if "fixture d = Some f" "fixture_slot f = Some s" for f s
      using that same by (simp add: fixtureWithSlot_def currentSlot_def)
    have slotD: "currentSlot (manager ?w) = s"
      if "\<forall>g. fixture d = Some g \<longrightarrow> fixture_slot g = None" "slot d = Some s" for s
      using that same by (simp add: currentSlot_def split: option.splits)
    have defD: "currentSlot (manager ?w) = defaultSlot (manager ?w)"
      if "\<forall>g. fixture d = Some g \<longrightarrow> fixture_slot g = None" "slot d = None"
      using that same by (simp add: currentSlot_def split: option.splits)
    have msg: "message (createTimeoutError X ?w) =
        colors_red X
          (case fixtureWithSlot d of
             Some f \<Rightarrow>
               ''Fixture \"'' @ title f @ ''\" timeout of ''
                 @ numberToString (timeout (slots ?w (currentSlot (manager ?w))))
                 @ ''ms exceeded during '' @ phaseName (phase f) @ ''.''
           | None \<Rightarrow>
               switchMessage (numberToString (timeout (slots ?w (currentSlot (manager ?w))))) d)"
      unfolding message_createTimeoutError same by (rule refl)
    have stk: "stack (createTimeoutError X ?w) =
        message (createTimeoutError X ?w) @ locationLine (errorLocation d)"
      unfolding stack_createTimeoutError same by (rule refl)
    have loc: "errorLocation d = location d" if "fixtureWithSlot d = None"
      using that by (simp add: errorLocation_def)
    have loc': "errorLocation d = fixture_location f" if "fixtureWithSlot d = Some f" for f
      using that by (simp add: errorLocation_def)
    have line: "locationLine None = ''''"
      "locationLine (Some l) = ''\<newline>    at '' @ file_l l @ '':''
         @ numberToString (line l) @ '':'' @ numberToString (column l)" for l
      by (simp_all add: locationLine_def)
    show ?thesis
      unfolding Let_def
      using outcomes sig same plainD ownD slotD defD loc loc'
      by (auto simp add: msg stk line name_createTimeoutError switchMessage_def)
  qed
  show ?thesis
  proof (cases "fst (TimeoutRunner_run cb (updateRunnable X d w)) = Inl TimeoutRunnerError
      \<and> runnable (manager ?w) = d")
    case True
    then show ?thesis using content by blast
  next
    case False
    with outcomes show ?thesis by blast
  qed
qed

text \<open>
  Under a \<^verbatim>\<open>beforeAll\<close> hook with a slot of 5000 ms: an operation that resolves with 7, one
  that is still pending when the deadline passes, and one that throws. Then an operation
  that is still pending when the deadline passes, under each kind of runnable: the error
  of each row of the table of messages.
\<close>

theorem withRunnable_outcome_witness:
  "fst (withRunnable specTimer (Some exampleHook) (exampleOp 10 (Resolved 7)) exampleWorld)
     = Resolved 7
   \<and> fst (withRunnable specTimer (Some exampleHook) (exampleOp 5000 Pending) exampleWorld) =
       Rejected (ManagerError
         \<lparr>name = '''', message = ''\"beforeAll\" hook timeout of 5000ms exceeded.'',
          stack = ''\"beforeAll\" hook timeout of 5000ms exceeded.\<newline>    at a.spec.ts:7:5''\<rparr>)
   \<and> fst (withRunnable specTimer (Some exampleHook)
        (exampleOp 10 (Rejected (OtherError ''boom''))) exampleWorld) =
       Rejected (OtherError ''boom'')
   \<and> fst (withRunnable specTimer (Some (runnableOf Test None)) (exampleOp 1 Pending) exampleWorld) =
       Rejected (ManagerError
         \<lparr>name = '''', message = ''Test timeout of 30000ms exceeded.'',
          stack = ''Test timeout of 30000ms exceeded.''\<rparr>)
   \<and> fst (withRunnable specTimer (Some (runnableOf Test (Some (pageFixture PhaseSetup None)))) (exampleOp 1 Pending) exampleWorld) =
       Rejected (ManagerError
         \<lparr>name = '''', message = ''Test timeout of 30000ms exceeded while setting up \"page\".'',
          stack = ''Test timeout of 30000ms exceeded while setting up \"page\".''\<rparr>)
   \<and> fst (withRunnable specTimer (Some (runnableOf Test (Some (pageFixture PhaseTeardown None)))) (exampleOp 1 Pending) exampleWorld) =
       Rejected (ManagerError
         \<lparr>name = '''', message = ''Test finished within timeout of 30000ms, but tearing down \"page\" ran out of time.\<newline>Please allow more time for the test, since teardown is attributed towards the test timeout budget.'',
          stack = ''Test finished within timeout of 30000ms, but tearing down \"page\" ran out of time.\<newline>Please allow more time for the test, since teardown is attributed towards the test timeout budget.''\<rparr>)
   \<and> fst (withRunnable specTimer (Some (runnableOf BeforeEach None)) (exampleOp 1 Pending) exampleWorld) =
       Rejected (ManagerError
         \<lparr>name = '''', message = ''Test timeout of 30000ms exceeded while running \"beforeEach\" hook.'',
          stack = ''Test timeout of 30000ms exceeded while running \"beforeEach\" hook.''\<rparr>)
   \<and> fst (withRunnable specTimer (Some (runnableOf AfterEach None)) (exampleOp 1 Pending) exampleWorld) =
       Rejected (ManagerError
         \<lparr>name = '''', message = ''Test timeout of 30000ms exceeded while running \"afterEach\" hook.'',
          stack = ''Test timeout of 30000ms exceeded while running \"afterEach\" hook.''\<rparr>)
   \<and> fst (withRunnable specTimer (Some (runnableOf BeforeAll None)) (exampleOp 1 Pending) exampleWorld) =
       Rejected (ManagerError
         \<lparr>name = '''', message = ''\"beforeAll\" hook timeout of 30000ms exceeded.'',
          stack = ''\"beforeAll\" hook timeout of 30000ms exceeded.''\<rparr>)
   \<and> fst (withRunnable specTimer (Some (runnableOf AfterAll None)) (exampleOp 1 Pending) exampleWorld) =
       Rejected (ManagerError
         \<lparr>name = '''', message = ''\"afterAll\" hook timeout of 30000ms exceeded.'',
          stack = ''\"afterAll\" hook timeout of 30000ms exceeded.''\<rparr>)
   \<and> fst (withRunnable specTimer (Some (runnableOf Teardown None)) (exampleOp 1 Pending) exampleWorld) =
       Rejected (ManagerError
         \<lparr>name = '''', message = ''Worker teardown timeout of 30000ms exceeded.'',
          stack = ''Worker teardown timeout of 30000ms exceeded.''\<rparr>)
   \<and> fst (withRunnable specTimer (Some (runnableOf Teardown (Some (pageFixture PhaseSetup None)))) (exampleOp 1 Pending) exampleWorld) =
       Rejected (ManagerError
         \<lparr>name = '''', message = ''Worker teardown timeout of 30000ms exceeded while setting up \"page\".'',
          stack = ''Worker teardown timeout of 30000ms exceeded while setting up \"page\".''\<rparr>)
   \<and> fst (withRunnable specTimer (Some (runnableOf Teardown (Some (pageFixture PhaseTeardown None)))) (exampleOp 1 Pending) exampleWorld) =
       Rejected (ManagerError
         \<lparr>name = '''', message = ''Worker teardown timeout of 30000ms exceeded while tearing down \"page\".'',
          stack = ''Worker teardown timeout of 30000ms exceeded while tearing down \"page\".''\<rparr>)
   \<and> fst (withRunnable specTimer (Some (runnableOf Skip None)) (exampleOp 1 Pending) exampleWorld) =
       Rejected (ManagerError
         \<lparr>name = '''', message = ''\"skip\" modifier timeout of 30000ms exceeded.'',
          stack = ''\"skip\" modifier timeout of 30000ms exceeded.''\<rparr>)
   \<and> fst (withRunnable specTimer (Some (runnableOf Slow None)) (exampleOp 1 Pending) exampleWorld) =
       Rejected (ManagerError
         \<lparr>name = '''', message = ''\"slow\" modifier timeout of 30000ms exceeded.'',
          stack = ''\"slow\" modifier timeout of 30000ms exceeded.''\<rparr>)
   \<and> fst (withRunnable specTimer (Some (runnableOf Fixme None)) (exampleOp 1 Pending) exampleWorld) =
       Rejected (ManagerError
         \<lparr>name = '''', message = ''\"fixme\" modifier timeout of 30000ms exceeded.'',
          stack = ''\"fixme\" modifier timeout of 30000ms exceeded.''\<rparr>)
   \<and> fst (withRunnable specTimer (Some (runnableOf Fail None)) (exampleOp 1 Pending) exampleWorld) =
       Rejected (ManagerError
         \<lparr>name = '''', message = ''\"fail\" modifier timeout of 30000ms exceeded.'',
          stack = ''\"fail\" modifier timeout of 30000ms exceeded.''\<rparr>)
   \<and> fst (withRunnable specTimer (Some (runnableOf Test (Some (pageFixture PhaseSetup (Some 2))))) (exampleOp 1 Pending) exampleWorld) =
       Rejected (ManagerError
         \<lparr>name = '''', message = ''Fixture \"page\" timeout of 2000ms exceeded during setup.'',
          stack = ''Fixture \"page\" timeout of 2000ms exceeded during setup.''\<rparr>)
   \<and> fst (withRunnable specTimer (Some (runnableOf AfterAll (Some (pageFixture PhaseTeardown (Some 2))))) (exampleOp 1 Pending) exampleWorld) =
       Rejected (ManagerError
         \<lparr>name = '''', message = ''Fixture \"page\" timeout of 2000ms exceeded during teardown.'',
          stack = ''Fixture \"page\" timeout of 2000ms exceeded during teardown.''\<rparr>)"
proof -
  note eval = Let_def withRunnable_def TimeoutRunner_run_def updateRunnable_def
    createTimeoutError_def switchMessage_def fixtureWithSlot_def errorLocation_def
    locationLine_def currentSlot_def runnableOf_def pageFixture_def example_defs print_defs
  have a: "fst (withRunnable specTimer (Some exampleHook) (exampleOp 10 (Resolved 7)) exampleWorld)
     = Resolved 7"
    using withRunnable_outcome [of "exampleOp 10 (Resolved 7)" specTimer exampleHook
      exampleWorld 7]
    by (simp add: eval)
  have b: "fst (withRunnable specTimer (Some exampleHook) (exampleOp 5000 Pending) exampleWorld) =
       Rejected (ManagerError
         \<lparr>name = '''', message = ''\"beforeAll\" hook timeout of 5000ms exceeded.'',
          stack = ''\"beforeAll\" hook timeout of 5000ms exceeded.\<newline>    at a.spec.ts:7:5''\<rparr>)"
    using withRunnable_outcome [of "exampleOp 5000 Pending" specTimer exampleHook exampleWorld]
    by (simp add: eval)
  have c: "fst (withRunnable specTimer (Some exampleHook)
        (exampleOp 10 (Rejected (OtherError ''boom''))) exampleWorld) =
       Rejected (OtherError ''boom'')"
    using withRunnable_outcome [of "exampleOp 10 (Rejected (OtherError ''boom''))" specTimer
      exampleHook exampleWorld _ "OtherError ''boom''"]
    by (simp add: eval)
  have r1: "fst (withRunnable specTimer (Some (runnableOf Test None)) (exampleOp 1 Pending) exampleWorld) =
       Rejected (ManagerError
         \<lparr>name = '''', message = ''Test timeout of 30000ms exceeded.'',
          stack = ''Test timeout of 30000ms exceeded.''\<rparr>)"
    using withRunnable_outcome [of "exampleOp 1 Pending" specTimer "runnableOf Test None" exampleWorld]
    by (simp add: eval)
  have r2: "fst (withRunnable specTimer (Some (runnableOf Test (Some (pageFixture PhaseSetup None)))) (exampleOp 1 Pending) exampleWorld) =
       Rejected (ManagerError
         \<lparr>name = '''', message = ''Test timeout of 30000ms exceeded while setting up \"page\".'',
          stack = ''Test timeout of 30000ms exceeded while setting up \"page\".''\<rparr>)"
    using withRunnable_outcome [of "exampleOp 1 Pending" specTimer "runnableOf Test (Some (pageFixture PhaseSetup None))" exampleWorld]
    by (simp add: eval)
  have r3: "fst (withRunnable specTimer (Some (runnableOf Test (Some (pageFixture PhaseTeardown None)))) (exampleOp 1 Pending) exampleWorld) =
       Rejected (ManagerError
         \<lparr>name = '''', message = ''Test finished within timeout of 30000ms, but tearing down \"page\" ran out of time.\<newline>Please allow more time for the test, since teardown is attributed towards the test timeout budget.'',
          stack = ''Test finished within timeout of 30000ms, but tearing down \"page\" ran out of time.\<newline>Please allow more time for the test, since teardown is attributed towards the test timeout budget.''\<rparr>)"
    using withRunnable_outcome [of "exampleOp 1 Pending" specTimer "runnableOf Test (Some (pageFixture PhaseTeardown None))" exampleWorld]
    by (simp add: eval)
  have r4: "fst (withRunnable specTimer (Some (runnableOf BeforeEach None)) (exampleOp 1 Pending) exampleWorld) =
       Rejected (ManagerError
         \<lparr>name = '''', message = ''Test timeout of 30000ms exceeded while running \"beforeEach\" hook.'',
          stack = ''Test timeout of 30000ms exceeded while running \"beforeEach\" hook.''\<rparr>)"
    using withRunnable_outcome [of "exampleOp 1 Pending" specTimer "runnableOf BeforeEach None" exampleWorld]
    by (simp add: eval)
  have r5: "fst (withRunnable specTimer (Some (runnableOf AfterEach None)) (exampleOp 1 Pending) exampleWorld) =
       Rejected (ManagerError
         \<lparr>name = '''', message = ''Test timeout of 30000ms exceeded while running \"afterEach\" hook.'',
          stack = ''Test timeout of 30000ms exceeded while running \"afterEach\" hook.''\<rparr>)"
    using withRunnable_outcome [of "exampleOp 1 Pending" specTimer "runnableOf AfterEach None" exampleWorld]
    by (simp add: eval)
  have r6: "fst (withRunnable specTimer (Some (runnableOf BeforeAll None)) (exampleOp 1 Pending) exampleWorld) =
       Rejected (ManagerError
         \<lparr>name = '''', message = ''\"beforeAll\" hook timeout of 30000ms exceeded.'',
          stack = ''\"beforeAll\" hook timeout of 30000ms exceeded.''\<rparr>)"
    using withRunnable_outcome [of "exampleOp 1 Pending" specTimer "runnableOf BeforeAll None" exampleWorld]
    by (simp add: eval)
  have r7: "fst (withRunnable specTimer (Some (runnableOf AfterAll None)) (exampleOp 1 Pending) exampleWorld) =
       Rejected (ManagerError
         \<lparr>name = '''', message = ''\"afterAll\" hook timeout of 30000ms exceeded.'',
          stack = ''\"afterAll\" hook timeout of 30000ms exceeded.''\<rparr>)"
    using withRunnable_outcome [of "exampleOp 1 Pending" specTimer "runnableOf AfterAll None" exampleWorld]
    by (simp add: eval)
  have r8: "fst (withRunnable specTimer (Some (runnableOf Teardown None)) (exampleOp 1 Pending) exampleWorld) =
       Rejected (ManagerError
         \<lparr>name = '''', message = ''Worker teardown timeout of 30000ms exceeded.'',
          stack = ''Worker teardown timeout of 30000ms exceeded.''\<rparr>)"
    using withRunnable_outcome [of "exampleOp 1 Pending" specTimer "runnableOf Teardown None" exampleWorld]
    by (simp add: eval)
  have r9: "fst (withRunnable specTimer (Some (runnableOf Teardown (Some (pageFixture PhaseSetup None)))) (exampleOp 1 Pending) exampleWorld) =
       Rejected (ManagerError
         \<lparr>name = '''', message = ''Worker teardown timeout of 30000ms exceeded while setting up \"page\".'',
          stack = ''Worker teardown timeout of 30000ms exceeded while setting up \"page\".''\<rparr>)"
    using withRunnable_outcome [of "exampleOp 1 Pending" specTimer "runnableOf Teardown (Some (pageFixture PhaseSetup None))" exampleWorld]
    by (simp add: eval)
  have r10: "fst (withRunnable specTimer (Some (runnableOf Teardown (Some (pageFixture PhaseTeardown None)))) (exampleOp 1 Pending) exampleWorld) =
       Rejected (ManagerError
         \<lparr>name = '''', message = ''Worker teardown timeout of 30000ms exceeded while tearing down \"page\".'',
          stack = ''Worker teardown timeout of 30000ms exceeded while tearing down \"page\".''\<rparr>)"
    using withRunnable_outcome [of "exampleOp 1 Pending" specTimer "runnableOf Teardown (Some (pageFixture PhaseTeardown None))" exampleWorld]
    by (simp add: eval)
  have r11: "fst (withRunnable specTimer (Some (runnableOf Skip None)) (exampleOp 1 Pending) exampleWorld) =
       Rejected (ManagerError
         \<lparr>name = '''', message = ''\"skip\" modifier timeout of 30000ms exceeded.'',
          stack = ''\"skip\" modifier timeout of 30000ms exceeded.''\<rparr>)"
    using withRunnable_outcome [of "exampleOp 1 Pending" specTimer "runnableOf Skip None" exampleWorld]
    by (simp add: eval)
  have r12: "fst (withRunnable specTimer (Some (runnableOf Slow None)) (exampleOp 1 Pending) exampleWorld) =
       Rejected (ManagerError
         \<lparr>name = '''', message = ''\"slow\" modifier timeout of 30000ms exceeded.'',
          stack = ''\"slow\" modifier timeout of 30000ms exceeded.''\<rparr>)"
    using withRunnable_outcome [of "exampleOp 1 Pending" specTimer "runnableOf Slow None" exampleWorld]
    by (simp add: eval)
  have r13: "fst (withRunnable specTimer (Some (runnableOf Fixme None)) (exampleOp 1 Pending) exampleWorld) =
       Rejected (ManagerError
         \<lparr>name = '''', message = ''\"fixme\" modifier timeout of 30000ms exceeded.'',
          stack = ''\"fixme\" modifier timeout of 30000ms exceeded.''\<rparr>)"
    using withRunnable_outcome [of "exampleOp 1 Pending" specTimer "runnableOf Fixme None" exampleWorld]
    by (simp add: eval)
  have r14: "fst (withRunnable specTimer (Some (runnableOf Fail None)) (exampleOp 1 Pending) exampleWorld) =
       Rejected (ManagerError
         \<lparr>name = '''', message = ''\"fail\" modifier timeout of 30000ms exceeded.'',
          stack = ''\"fail\" modifier timeout of 30000ms exceeded.''\<rparr>)"
    using withRunnable_outcome [of "exampleOp 1 Pending" specTimer "runnableOf Fail None" exampleWorld]
    by (simp add: eval)
  have r15: "fst (withRunnable specTimer (Some (runnableOf Test (Some (pageFixture PhaseSetup (Some 2))))) (exampleOp 1 Pending) exampleWorld) =
       Rejected (ManagerError
         \<lparr>name = '''', message = ''Fixture \"page\" timeout of 2000ms exceeded during setup.'',
          stack = ''Fixture \"page\" timeout of 2000ms exceeded during setup.''\<rparr>)"
    using withRunnable_outcome [of "exampleOp 1 Pending" specTimer "runnableOf Test (Some (pageFixture PhaseSetup (Some 2)))" exampleWorld]
    by (simp add: eval)
  have r16: "fst (withRunnable specTimer (Some (runnableOf AfterAll (Some (pageFixture PhaseTeardown (Some 2))))) (exampleOp 1 Pending) exampleWorld) =
       Rejected (ManagerError
         \<lparr>name = '''', message = ''Fixture \"page\" timeout of 2000ms exceeded during teardown.'',
          stack = ''Fixture \"page\" timeout of 2000ms exceeded during teardown.''\<rparr>)"
    using withRunnable_outcome [of "exampleOp 1 Pending" specTimer "runnableOf AfterAll (Some (pageFixture PhaseTeardown (Some 2)))" exampleWorld]
    by (simp add: eval)
  from a b c r1 r2 r3 r4 r5 r6 r7 r8 r9 r10 r11 r12 r13 r14 r15 r16
  show ?thesis by (simp only: simp_thms)
qed

subsection \<open>The resting state\<close>

lemma type_after_withRunnable:
  assumes "fst c = None \<longrightarrow>
      (\<forall>v. type (runnable (manager (snd (snd c v)))) = type (runnable (manager v)))"
    and "type (runnable (manager w)) = Test"
  shows "type (runnable (manager (snd (withRunnable X (fst c) (snd c) w)))) = Test"
proof (cases "fst c")
  case None
  with assms show ?thesis by (simp add: withRunnable_def)
next
  case (Some d)
  then show ?thesis
    by (simp add: snd_withRunnable_Some runnable_updateRunnable restingRunnable_def)
qed

lemma type_after_withRunnables:
  assumes "\<forall>c \<in> set cs. fst c = None \<longrightarrow>
             (\<forall>v. type (runnable (manager (snd (snd c v)))) = type (runnable (manager v)))"
    and "type (runnable (manager w)) = Test"
  shows "type (runnable (manager (withRunnables X cs w))) = Test"
  using assms
proof (induction cs arbitrary: w)
  case Nil
  then show ?case by simp
next
  case (Cons c cs)
  have step: "type (runnable (manager (snd (withRunnable X (fst c) (snd c) w)))) = Test"
    using Cons.prems by (intro type_after_withRunnable) simp_all
  have rest: "\<forall>c \<in> set cs. fst c = None \<longrightarrow>
             (\<forall>v. type (runnable (manager (snd (snd c v)))) = type (runnable (manager v)))"
    using Cons.prems(1) by simp
  show ?case
    using Cons.IH [OF rest step] by simp
qed

text \<open>
  Claim C4. The constructor leaves the runnable at type \<^verbatim>\<open>test\<close>, and after each call of
  a sequence of calls of \<open>withRunnable\<close>, one after the other, the type is \<^verbatim>\<open>test\<close> again,
  whatever the outcome of the operation (resolved, rejected, or cut by the timer). The
  calls do not overlap: an operation does not itself switch the runnable, a field private
  to the manager. The hypothesis asks this of the operations run without a description
  only; a call with a description resets the runnable whatever its operation did.
\<close>

theorem resting_type_is_test:
  assumes "\<forall>c \<in> set cs. fst c = None \<longrightarrow>
             (\<forall>v. type (runnable (manager (snd (snd c v)))) = type (runnable (manager v)))"
  shows "currentRunnableType (constructor X t r h) = Test
    \<and> (\<forall>k \<le> length cs.
          currentRunnableType (withRunnables X (take k cs) (constructor X t r h)) = Test)"
proof -
  have init: "type (runnable (manager (constructor X t r h))) = Test"
    by (simp add: constructor_def restingRunnable_def)
  have "currentRunnableType (withRunnables X (take k cs) (constructor X t r h)) = Test" for k
  proof -
    have "\<forall>c \<in> set (take k cs). fst c = None \<longrightarrow>
             (\<forall>v. type (runnable (manager (snd (snd c v)))) = type (runnable (manager v)))"
      using assms by (meson in_set_takeD)
    from type_after_withRunnables [OF this init] show ?thesis
      by (simp add: currentRunnableType_def)
  qed
  with init show ?thesis
    by (simp add: currentRunnableType_def)
qed

text \<open>
  Three calls in a row: a hook that resolves, an unguarded operation that throws, and a
  test with a fixture that times out.
\<close>

theorem resting_type_is_test_witness:
  "currentRunnableType (constructor specTimer 30000 0 exampleSlots) = Test
   \<and> currentRunnableType
        (withRunnables specTimer exampleCalls (constructor specTimer 30000 0 exampleSlots)) = Test"
proof -
  have h: "\<forall>c \<in> set exampleCalls. fst c = None \<longrightarrow>
             (\<forall>v. type (runnable (manager (snd (snd c v)))) = type (runnable (manager v)))"
    by (simp add: exampleCalls_def exampleOp_def)
  have l: "length exampleCalls = 3"
    by (simp add: exampleCalls_def)
  from resting_type_is_test [OF h, of specTimer 30000 0 exampleSlots] l
  have "currentRunnableType (constructor specTimer 30000 0 exampleSlots) = Test
    \<and> currentRunnableType
        (withRunnables specTimer (take 3 exampleCalls)
          (constructor specTimer 30000 0 exampleSlots)) = Test"
    by (metis order_refl)
  then show ?thesis
    using l by simp
qed

subsection \<open>Adjusting the budget\<close>

lemma roundToDouble_exact: "\<bar>x\<bar> \<le> 2 ^ 53 \<Longrightarrow> roundToDouble x = x"
proof -
  assume a: "\<bar>x\<bar> \<le> 2 ^ 53"
  have top: "bitLength 9007199254740992 = 54"
    by (simp add: bitLength.simps)
  have "\<bar>x\<bar> < 2 ^ 53 \<or> x = 9007199254740992 \<or> x = - 9007199254740992"
    using a by simp arith
  then consider "\<bar>x\<bar> < 2 ^ 53" | "x = 9007199254740992" | "x = - 9007199254740992"
    by blast
  then show ?thesis
  proof cases
    case 1
    then show ?thesis by (simp add: roundToDouble_def)
  next
    case 2
    then show ?thesis by (simp add: roundToDouble_def top Let_def)
  next
    case 3
    then show ?thesis by (simp add: roundToDouble_def top Let_def)
  qed
qed

lemma timeout_slow:
  "timeout (slots (slow X w) (currentSlot (manager w))) =
     roundToDouble (3 * timeout (slots w (currentSlot (manager w))))"
  by (simp add: slow_def Let_def mult.commute)

lemma timeoutRunner_slow:
  "timeoutRunner (manager (slow X w)) =
     runner_updateTimeout X (timeout (slots (slow X w) (currentSlot (manager (slow X w))))) None
       (timeoutRunner (manager w))"
  by (simp only: currentSlot_slow) (simp add: slow_def Let_def)

lemma timeout_slow_exact:
  assumes "\<bar>3 * timeout (slots w (currentSlot (manager w)))\<bar> \<le> 2 ^ 53"
  shows "timeout (slots (slow X w) (currentSlot (manager (slow X w)))) =
     3 * timeout (slots w (currentSlot (manager w)))"
  using roundToDouble_exact [OF assms]
  by (simp only: currentSlot_slow timeout_slow)

lemma timeout_slowTimes_exact:
  "\<bar>3 ^ n * timeout (slots w (currentSlot (manager w)))\<bar> \<le> 2 ^ 53 \<Longrightarrow>
   timeout (slots (slowTimes X n w) (currentSlot (manager (slowTimes X n w)))) =
     3 ^ n * timeout (slots w (currentSlot (manager w)))"
proof (induction n arbitrary: w)
  case 0
  show ?case by simp
next
  case (Suc n)
  let ?t = "timeout (slots w (currentSlot (manager w)))"
  have "\<bar>3 * ?t\<bar> * 1 \<le> \<bar>3 * ?t\<bar> * 3 ^ n"
    by (intro mult_left_mono) simp_all
  also have "\<dots> = \<bar>3 ^ Suc n * ?t\<bar>"
    by (simp add: abs_mult)
  finally have small: "\<bar>3 * ?t\<bar> \<le> 2 ^ 53"
    using Suc.prems by simp
  have first: "timeout (slots (slow X w) (currentSlot (manager (slow X w)))) = 3 * ?t"
    by (rule timeout_slow_exact [OF small])
  have "\<bar>3 ^ n * timeout (slots (slow X w) (currentSlot (manager (slow X w))))\<bar> \<le> 2 ^ 53"
    using Suc.prems by (simp only: first) (simp add: mult.assoc)
  from Suc.IH [OF this] show ?case
    by (simp only: first slowTimes.simps) simp
qed

text \<open>
  Claim C5. In every state, \<open>slow\<close> pushes the new timeout of the resolved
  slot to the timer (\<^verbatim>\<open>updateTimeout\<close> with it and no elapsed time), and the resolved slot
  stays the same slot. The new timeout is exactly three times the old one when that
  product is at most \<open>2^53\<close> in magnitude. The effect compounds: two calls give nine
  times the first timeout, three calls twenty-seven times, \<open>n\<close> calls \<open>3 ^ n\<close> times,
  each when that product is at most \<open>2^53\<close> in magnitude.
\<close>

theorem slow_triples:
  "(\<bar>3 * timeout (slots w (currentSlot (manager w)))\<bar> \<le> 2 ^ 53 \<longrightarrow>
      timeout (slots (slow X w) (currentSlot (manager (slow X w)))) =
        3 * timeout (slots w (currentSlot (manager w)))
      \<and> timeoutRunner (manager (slow X w)) =
          runner_updateTimeout X (3 * timeout (slots w (currentSlot (manager w)))) None
            (timeoutRunner (manager w)))
   \<and> currentSlot (manager (slow X w)) = currentSlot (manager w)
   \<and> timeoutRunner (manager (slow X w)) =
       runner_updateTimeout X (timeout (slots (slow X w) (currentSlot (manager (slow X w)))))
         None (timeoutRunner (manager w))
   \<and> (\<bar>9 * timeout (slots w (currentSlot (manager w)))\<bar> \<le> 2 ^ 53 \<longrightarrow>
        timeout (slots (slow X (slow X w)) (currentSlot (manager (slow X (slow X w))))) =
          9 * timeout (slots w (currentSlot (manager w))))
   \<and> (\<bar>27 * timeout (slots w (currentSlot (manager w)))\<bar> \<le> 2 ^ 53 \<longrightarrow>
        timeout (slots (slow X (slow X (slow X w)))
          (currentSlot (manager (slow X (slow X (slow X w)))))) =
          27 * timeout (slots w (currentSlot (manager w))))
   \<and> (\<bar>3 ^ n * timeout (slots w (currentSlot (manager w)))\<bar> \<le> 2 ^ 53 \<longrightarrow>
        timeout (slots (slowTimes X n w) (currentSlot (manager (slowTimes X n w)))) =
          3 ^ n * timeout (slots w (currentSlot (manager w))))"
proof -
  let ?t = "\<lambda>v. timeout (slots v (currentSlot (manager v)))"
  have one: "?t (slow X w) = 3 * ?t w" if "\<bar>3 * ?t w\<bar> \<le> 2 ^ 53"
    using that by (rule timeout_slow_exact)
  have push: "timeoutRunner (manager (slow X w)) =
      runner_updateTimeout X (3 * ?t w) None (timeoutRunner (manager w))"
    if "\<bar>3 * ?t w\<bar> \<le> 2 ^ 53"
    using one [OF that] timeoutRunner_slow [of X w] by simp
  have two: "?t (slow X (slow X w)) = 9 * ?t w" if "\<bar>9 * ?t w\<bar> \<le> 2 ^ 53"
  proof -
    have "\<bar>3 ^ 2 * ?t w\<bar> \<le> 2 ^ 53"
      using that by simp
    from timeout_slowTimes_exact [OF this, of X] show ?thesis
      by (simp add: numeral_2_eq_2)
  qed
  have three: "?t (slow X (slow X (slow X w))) = 27 * ?t w" if "\<bar>27 * ?t w\<bar> \<le> 2 ^ 53"
  proof -
    have "\<bar>3 ^ 3 * ?t w\<bar> \<le> 2 ^ 53"
      using that by simp
    from timeout_slowTimes_exact [OF this, of X] show ?thesis
      by (simp add: numeral_3_eq_3)
  qed
  show ?thesis
    using one push two three timeout_slowTimes_exact [of n w X] timeoutRunner_slow [of X w]
    by (simp add: currentSlot_slow)
qed

text \<open>From a timeout of 30 seconds: 90, 270 and 810 seconds, and 2430 after four calls.\<close>

theorem slow_triples_witness:
  "timeout (slots (slow specTimer exampleWorld) 0) = 90000
   \<and> timeout (slots (slow specTimer (slow specTimer exampleWorld)) 0) = 270000
   \<and> timeout (slots (slow specTimer (slow specTimer (slow specTimer exampleWorld))) 0) = 810000
   \<and> timeout (slots (slowTimes specTimer 4 exampleWorld) 0) = 2430000
   \<and> timeoutRunner (manager (slow specTimer exampleWorld)) =
       \<lparr>budget = 90000, spent = 0, deadline = 90000, interrupted = False\<rparr>"
proof -
  have c: "currentSlot (manager (slow specTimer exampleWorld)) = 0"
    "currentSlot (manager (slow specTimer (slow specTimer exampleWorld))) = 0"
    "currentSlot (manager (slow specTimer (slow specTimer (slow specTimer exampleWorld)))) = 0"
    "currentSlot (manager (slowTimes specTimer 4 exampleWorld)) = 0"
    by (simp_all add: currentSlot_slow currentSlot_slowTimes example_resolution)
  have p: "runner_updateTimeout specTimer 90000 None
             \<lparr>budget = 30000, spent = 0, deadline = 30000, interrupted = False\<rparr> =
           \<lparr>budget = 90000, spent = 0, deadline = 90000, interrupted = False\<rparr>"
    by (simp add: specTimer_def)
  from slow_triples [of exampleWorld specTimer 4] show ?thesis
    by (simp add: example_resolution c p)
qed

text \<open>
  Beyond the bound the new timeout need not be three times the old one. At a timeout of
  3002399751580331 ms, three times that is \<open>2^53 + 1\<close>, which is no double, and the
  product of the source is \<open>2^53\<close>.
\<close>

theorem slow_triples_counterexample:
  "timeout (slots (slow specTimer largeWorld) (currentSlot (manager (slow specTimer largeWorld))))
     = 9007199254740992
   \<and> 3 * timeout (slots largeWorld (currentSlot (manager largeWorld))) = 9007199254740993
   \<and> timeout (slots (slow specTimer largeWorld) (currentSlot (manager (slow specTimer largeWorld))))
     \<noteq> 3 * timeout (slots largeWorld (currentSlot (manager largeWorld)))"
proof -
  have s: "currentSlot (manager largeWorld) = 0"
    "timeout (slots largeWorld 0) = 3002399751580331"
    by (simp_all add: example_defs currentSlot_def)
  have b: "bitLength 9007199254740993 = 54"
    by (simp add: bitLength.simps)
  have r: "roundToDouble 9007199254740993 = 9007199254740992"
    by (simp add: roundToDouble_def b Let_def)
  have "timeout (slots (slow specTimer largeWorld) (currentSlot (manager largeWorld))) =
      roundToDouble (3 * timeout (slots largeWorld (currentSlot (manager largeWorld))))"
    by (rule timeout_slow)
  then have "timeout (slots (slow specTimer largeWorld) 0) = 9007199254740992"
    by (simp add: s r)
  then show ?thesis
    by (simp add: currentSlot_slow s)
qed

text \<open>
  Claim C6. \<open>setTimeout X t\<close> on a state whose resolved slot has timeout zero returns the
  state as it was: the timeout stays zero, the timer is not called, and there is no error
  (the method has none). On a state whose resolved timeout is not zero, the timeout of the
  resolved slot becomes \<open>t\<close> and \<open>t\<close> is pushed to the timer.
\<close>

theorem setTimeout_sticky_zero:
  "(timeout (slots w (currentSlot (manager w))) = 0 \<longrightarrow> setTimeout X t w = w) \<and>
   (timeout (slots w (currentSlot (manager w))) \<noteq> 0 \<longrightarrow>
      timeout (slots (setTimeout X t w) (currentSlot (manager (setTimeout X t w)))) = t \<and>
      currentSlot (manager (setTimeout X t w)) = currentSlot (manager w) \<and>
      timeoutRunner (manager (setTimeout X t w)) =
        runner_updateTimeout X t None (timeoutRunner (manager w)))"
  by (simp add: currentSlot_setTimeout) (simp add: setTimeout_def Let_def)

theorem setTimeout_sticky_zero_witness:
  "setTimeout specTimer 100 disabledWorld = disabledWorld
   \<and> timeout (slots (setTimeout specTimer 100 exampleWorld) 0) = 100
   \<and> timeoutRunner (manager (setTimeout specTimer 100 exampleWorld)) =
       \<lparr>budget = 100, spent = 0, deadline = 100, interrupted = False\<rparr>"
proof -
  have c: "currentSlot (manager (setTimeout specTimer 100 exampleWorld)) = 0"
    by (simp add: currentSlot_setTimeout example_resolution)
  have p: "runner_updateTimeout specTimer 100 None
             \<lparr>budget = 30000, spent = 0, deadline = 30000, interrupted = False\<rparr> =
           \<lparr>budget = 100, spent = 0, deadline = 100, interrupted = False\<rparr>"
    by (simp add: specTimer_def)
  from setTimeout_sticky_zero [of disabledWorld specTimer 100]
    setTimeout_sticky_zero [of exampleWorld specTimer 100]
  show ?thesis
    by (simp add: example_resolution c p)
qed

text \<open>
  Claim C10. When the timeout of the resolved slot is zero, it is zero after \<open>slow\<close>, and
  after any number of calls of \<open>slow\<close>; \<open>setTimeout\<close> after them still changes nothing.
\<close>

theorem slow_zero_fixed_point:
  assumes "timeout (slots w (currentSlot (manager w))) = 0"
  shows "timeout (slots (slow X w) (currentSlot (manager (slow X w)))) = 0
    \<and> timeout (slots (slowTimes X n w) (currentSlot (manager (slowTimes X n w)))) = 0
    \<and> setTimeout X t (slowTimes X n w) = slowTimes X n w"
proof -
  have a: "timeout (slots (slowTimes X n w) (currentSlot (manager (slowTimes X n w)))) = 0"
    using assms timeout_slowTimes_exact [of n w X] by simp
  have b: "timeout (slots (slow X w) (currentSlot (manager (slow X w)))) = 0"
    using assms timeout_slow_exact [of w X] by simp
  have c: "setTimeout X t (slowTimes X n w) = slowTimes X n w"
    using a by (simp add: setTimeout_def Let_def)
  from a b c show ?thesis by simp
qed

theorem slow_zero_fixed_point_witness:
  "timeout (slots (slow specTimer disabledWorld) 0) = 0
   \<and> timeout (slots (slowTimes specTimer 3 disabledWorld) 0) = 0
   \<and> setTimeout specTimer 100 (slowTimes specTimer 3 disabledWorld) =
       slowTimes specTimer 3 disabledWorld"
proof -
  have h: "timeout (slots disabledWorld (currentSlot (manager disabledWorld))) = 0"
    by (simp add: example_resolution)
  from slow_zero_fixed_point [OF h, of specTimer 3 100] show ?thesis
    by (simp add: currentSlot_slow currentSlot_slowTimes example_resolution)
qed

subsection \<open>A call without a description\<close>

text \<open>
  Claim C8. \<open>withRunnable\<close> without a description is the operation itself: the outcome of
  the call is the outcome of the operation, and the runnable, the slots (so the timeout and
  the elapsed time of the resolved slot), the timer and its deadline after the call are
  what the operation left. The call adds no effect of its own; with an operation that
  leaves the world as it was, the call leaves it as it was.
\<close>

theorem withRunnable_undefined:
  "withRunnable X None cb w = cb w
   \<and> fst (withRunnable X None cb w) = fst (cb w)
   \<and> runnable (manager (snd (withRunnable X None cb w))) = runnable (manager (snd (cb w)))
   \<and> slots (snd (withRunnable X None cb w)) = slots (snd (cb w))
   \<and> timeoutRunner (manager (snd (withRunnable X None cb w))) =
       timeoutRunner (manager (snd (cb w)))
   \<and> currentSlotDeadline X (snd (withRunnable X None cb w)) = currentSlotDeadline X (snd (cb w))
   \<and> (snd (cb w) = w \<longrightarrow> snd (withRunnable X None cb w) = w)"
  by (simp add: withRunnable_def)

theorem withRunnable_undefined_witness:
  "withRunnable specTimer None exampleReturn exampleWorld = (Resolved 5, exampleWorld)
   \<and> withRunnable specTimer None (exampleOp 0 (Rejected (OtherError ''boom'')))
        (updateRunnable specTimer exampleHook exampleWorld)
      = (Rejected (OtherError ''boom''), updateRunnable specTimer exampleHook exampleWorld)"
proof -
  have a: "snd (exampleReturn exampleWorld) = exampleWorld"
    by (simp add: exampleReturn_def)
  have b: "exampleOp 0 (Rejected (OtherError ''boom'')) v = (Rejected (OtherError ''boom''), v)"
    for v
    by (simp add: exampleOp_def)
  from a withRunnable_undefined [of specTimer exampleReturn exampleWorld]
    withRunnable_undefined [of specTimer "exampleOp 0 (Rejected (OtherError ''boom''))"
      "updateRunnable specTimer exampleHook exampleWorld"]
  show ?thesis
    by (simp add: exampleReturn_def b)
qed

subsection \<open>The timeout error\<close>

text \<open>
  Claim C7. When the fixture of the runnable has its own slot \<open>s\<close>, then for every type of
  the runnable the message of the timeout error is the text
  \<^verbatim>\<open>Fixture "{title}" timeout of {timeout}ms exceeded during {phase}.\<close>, with the timeout
  of that slot, as \<^verbatim>\<open>colors.red\<close> styles it; the location of the error is the location of
  the fixture (none when the fixture has none, also when the runnable has one), and the
  stack is the message and the line of that location. When no fixture with its own slot is
  active, the location is the location of the runnable.
\<close>

theorem fixture_slot_error:
  "(fixture (runnable (manager w)) = Some f \<and> fixture_slot f = Some s \<longrightarrow>
      message (createTimeoutError X w) =
        colors_red X
          (''Fixture \"'' @ title f @ ''\" timeout of '' @ numberToString (timeout (slots w s))
            @ ''ms exceeded during '' @ phaseName (phase f) @ ''.'')
      \<and> errorLocation (runnable (manager w)) = fixture_location f
      \<and> stack (createTimeoutError X w) =
          message (createTimeoutError X w) @ locationLine (fixture_location f))
   \<and> ((\<forall>g. fixture (runnable (manager w)) = Some g \<longrightarrow> fixture_slot g = None) \<longrightarrow>
      errorLocation (runnable (manager w)) = location (runnable (manager w))
      \<and> stack (createTimeoutError X w) =
          message (createTimeoutError X w) @ locationLine (location (runnable (manager w))))"
proof -
  have own: "fixtureWithSlot (runnable (manager w)) = Some f \<and> currentSlot (manager w) = s"
    if "fixture (runnable (manager w)) = Some f" "fixture_slot f = Some s"
    using that by (simp add: fixtureWithSlot_def currentSlot_def)
  have none: "fixtureWithSlot (runnable (manager w)) = None"
    if "\<forall>g. fixture (runnable (manager w)) = Some g \<longrightarrow> fixture_slot g = None"
    using that by (simp add: fixtureWithSlot_def split: option.splits)
  show ?thesis
    using own none
    by (auto simp add: message_createTimeoutError stack_createTimeoutError errorLocation_def)
qed

text \<open>
  A test whose fixture \<^verbatim>\<open>db\<close> has a slot of 2000 ms and is in teardown, and a hook with no
  fixture.
\<close>

theorem fixture_slot_error_witness:
  "message (createTimeoutError specTimer (updateRunnable specTimer exampleTest exampleWorld)) =
     ''Fixture \"db\" timeout of 2000ms exceeded during teardown.''
   \<and> stack (createTimeoutError specTimer (updateRunnable specTimer exampleTest exampleWorld)) =
     ''Fixture \"db\" timeout of 2000ms exceeded during teardown.\<newline>    at fixtures.ts:12:3''
   \<and> stack (createTimeoutError specTimer (updateRunnable specTimer exampleHook exampleWorld)) =
     message (createTimeoutError specTimer (updateRunnable specTimer exampleHook exampleWorld))
       @ ''\<newline>    at a.spec.ts:7:5''"
proof -
  let ?w = "updateRunnable specTimer exampleTest exampleWorld"
  let ?v = "updateRunnable specTimer exampleHook exampleWorld"
  have a: "fixture (runnable (manager ?w)) = Some exampleFixture
           \<and> fixture_slot exampleFixture = Some 2"
    by (simp add: runnable_updateRunnable) (simp add: exampleTest_def exampleFixture_def)
  have t: "timeout (slots ?w 2) = 2000"
    by (simp add: slots_updateRunnable) (simp add: example_defs currentSlot_def)
  have b: "\<forall>g. fixture (runnable (manager ?v)) = Some g \<longrightarrow> fixture_slot g = None"
    by (simp add: runnable_updateRunnable) (simp add: exampleHook_def)
  have l: "location (runnable (manager ?v)) =
             Some \<lparr>file_l = ''a.spec.ts'', line = 7, column = 5\<rparr>"
    by (simp add: runnable_updateRunnable) (simp add: exampleHook_def)
  from a t b l fixture_slot_error [of ?w exampleFixture 2 specTimer]
    fixture_slot_error [of ?v _ _ specTimer]
  show ?thesis
    by (simp add: locationLine_def print_defs)
       (simp add: exampleFixture_def specTimer_def print_defs)
qed

text \<open>
  Claim C9. When the runnable has type \<^verbatim>\<open>test\<close> and no fixture, the message of the timeout
  error is the text \<^verbatim>\<open>Test timeout of {X}ms exceeded.\<close>, with \<open>X\<close> the timeout of the resolved
  slot, as \<^verbatim>\<open>colors.red\<close> styles it (the text itself when the styling is off); the location
  is the runnable's, and with no location the stack is the message alone. In every state
  the name of the error is empty and the stack is the message, followed when there is a
  location by the line \<^verbatim>\<open>    at file:line:column\<close>.
\<close>

theorem default_test_error:
  "(type (runnable (manager w)) = Test \<and> fixture (runnable (manager w)) = None \<longrightarrow>
      message (createTimeoutError X w) =
        colors_red X (''Test timeout of ''
          @ numberToString (timeout (slots w (currentSlot (manager w)))) @ ''ms exceeded.'')
      \<and> (colors_red X = (\<lambda>s. s) \<longrightarrow>
           message (createTimeoutError X w) =
             ''Test timeout of '' @ numberToString (timeout (slots w (currentSlot (manager w))))
               @ ''ms exceeded.'')
      \<and> errorLocation (runnable (manager w)) = location (runnable (manager w))
      \<and> (location (runnable (manager w)) = None \<longrightarrow>
           stack (createTimeoutError X w) = message (createTimeoutError X w)))
   \<and> name (createTimeoutError X w) = ''''
   \<and> stack (createTimeoutError X w) =
       message (createTimeoutError X w) @
         (case errorLocation (runnable (manager w)) of
            None \<Rightarrow> ''''
          | Some l \<Rightarrow> ''\<newline>    at '' @ file_l l @ '':'' @ numberToString (line l) @ '':''
              @ numberToString (column l))"
proof -
  have none: "fixtureWithSlot (runnable (manager w)) = None"
    if "fixture (runnable (manager w)) = None"
    using that by (simp add: fixtureWithSlot_def)
  have trace: "locationLine l =
      (case l of
         None \<Rightarrow> ''''
       | Some l \<Rightarrow> ''\<newline>    at '' @ file_l l @ '':'' @ numberToString (line l) @ '':''
           @ numberToString (column l))" for l
    by (simp add: locationLine_def split: option.splits)
  show ?thesis
    using none
    by (auto simp add: message_createTimeoutError stack_createTimeoutError
        name_createTimeoutError errorLocation_def switchMessage_def trace)
qed

text \<open>The resting state of a manager made with a timeout of 30 seconds.\<close>

theorem default_test_error_witness:
  "createTimeoutError specTimer exampleWorld =
     \<lparr>name = '''', message = ''Test timeout of 30000ms exceeded.'',
      stack = ''Test timeout of 30000ms exceeded.''\<rparr>"
proof -
  have a: "type (runnable (manager exampleWorld)) = Test
           \<and> fixture (runnable (manager exampleWorld)) = None"
    "location (runnable (manager exampleWorld)) = None"
    by (simp_all add: example_defs)
  have c: "colors_red specTimer = (\<lambda>s. s)"
    by (simp add: specTimer_def)
  from a c default_test_error [of exampleWorld specTimer]
  have "message (createTimeoutError specTimer exampleWorld) = ''Test timeout of 30000ms exceeded.''
    \<and> stack (createTimeoutError specTimer exampleWorld) =
        message (createTimeoutError specTimer exampleWorld)
    \<and> name (createTimeoutError specTimer exampleWorld) = ''''"
    by (simp add: example_resolution print_defs)
  then show ?thesis
    by (cases "createTimeoutError specTimer exampleWorld") simp
qed

end
